theory Spec2Isabelle
  imports Main
begin

section \<open>The Date built-ins used by the server\<close>

text \<open>
  The route handlers of \<^verbatim>\<open>server/routes.ts\<close> read the clock with \<^verbatim>\<open>new Date()\<close> and use
  \<^verbatim>\<open>getTime\<close>, \<^verbatim>\<open>getDate\<close>, \<^verbatim>\<open>getMonth\<close>, \<^verbatim>\<open>getFullYear\<close> and \<^verbatim>\<open>setDate\<close>.
  These are built-ins of the language; they are modelled after their definitions in
  ECMA-262 (section "Date Objects"). A time value is a number of milliseconds since the
  epoch, here an \<open>int\<close>; the result of \<^verbatim>\<open>TimeClip\<close> is an \<open>int option\<close> whose \<open>None\<close> is
  the time value NaN of an invalid Date.
\<close>

definition msPerDay :: int where
  "msPerDay = 86400000"

definition Day :: "int \<Rightarrow> int" where
  "Day t = t div msPerDay"

definition TimeWithinDay :: "int \<Rightarrow> int" where
  "TimeWithinDay t = t mod msPerDay"

definition DaysInYear :: "int \<Rightarrow> int" where
  "DaysInYear y =
     (if y mod 4 \<noteq> 0 then 365
      else if y mod 100 \<noteq> 0 then 366
      else if y mod 400 \<noteq> 0 then 365
      else 366)"

definition DayFromYear :: "int \<Rightarrow> int" where
  "DayFromYear y =
     365 * (y - 1970) + (y - 1969) div 4 - (y - 1901) div 100 + (y - 1601) div 400"

definition TimeFromYear :: "int \<Rightarrow> int" where
  "TimeFromYear y = msPerDay * DayFromYear y"

text \<open>
  A year has \<open>DaysInYear\<close> days, at least 365: the first days of the years increase, which
  is what makes the search for the year of a day terminate.
\<close>

lemma div_step:
  "0 < k \<Longrightarrow> (x + 1) div k = x div k + (if (x + 1) mod k = 0 then 1 else 0)"
  for x k :: int
proof -
  assume k: "0 < k"
  define q where "q = x div k"
  define r where "r = x mod k"
  have x: "x = k * q + r" and r: "0 \<le> r" "r < k"
    using k by (simp_all add: q_def r_def)
  show ?thesis
  proof (cases "r + 1 = k")
    case True
    then have "x + 1 = k * (q + 1)"
      using x by (simp add: algebra_simps)
    then show ?thesis
      using k q_def by simp
  next
    case False
    then have lt: "r + 1 < k"
      using r by simp
    have e: "x + 1 = k * q + (r + 1)"
      using x by simp
    have "(x + 1) div k = q"
      unfolding e using lt r k by (simp add: div_pos_pos_trivial)
    moreover have "(x + 1) mod k = r + 1"
      unfolding e using lt r k by (simp add: mod_pos_pos_trivial)
    ultimately show ?thesis
      using r q_def by simp
  qed
qed

lemma leap_mod_4: "(y - 1968) mod 4 = 0 \<longleftrightarrow> y mod 4 = 0" for y :: int
  by presburger

lemma leap_mod_100: "(y - 1900) mod 100 = 0 \<longleftrightarrow> y mod 100 = 0" for y :: int
  by presburger

lemma leap_mod_400: "(y - 1600) mod 400 = 0 \<longleftrightarrow> y mod 400 = 0" for y :: int
  by presburger

lemma mod_400_100: "y mod 400 = 0 \<Longrightarrow> y mod 100 = 0" for y :: int
  by presburger

lemma mod_100_4: "y mod 100 = 0 \<Longrightarrow> y mod 4 = 0" for y :: int
  by presburger

lemma DayFromYear_Suc: "DayFromYear (y + 1) = DayFromYear y + DaysInYear y"
proof -
  have a: "(y + 1 - 1969) div 4 = (y - 1969) div 4 + (if y mod 4 = 0 then 1 else 0)"
    using div_step [of 4 "y - 1969"] leap_mod_4 [of y] by (simp add: algebra_simps)
  have b: "(y + 1 - 1901) div 100 = (y - 1901) div 100 + (if y mod 100 = 0 then 1 else 0)"
    using div_step [of 100 "y - 1901"] leap_mod_100 [of y] by (simp add: algebra_simps)
  have c: "(y + 1 - 1601) div 400 = (y - 1601) div 400 + (if y mod 400 = 0 then 1 else 0)"
    using div_step [of 400 "y - 1601"] leap_mod_400 [of y] by (simp add: algebra_simps)
  show ?thesis
    unfolding DayFromYear_def DaysInYear_def a b c
    using mod_400_100 [of y] mod_100_4 [of y] by auto
qed

lemma DaysInYear_pos: "365 \<le> DaysInYear y"
  by (simp add: DaysInYear_def)

lemma DayFromYear_less_Suc: "DayFromYear y < DayFromYear (y + 1)"
  using DaysInYear_pos [of y] by (simp add: DayFromYear_Suc)

lemma DayFromYear_pred_less: "DayFromYear (y - 1) < DayFromYear y"
  using DayFromYear_less_Suc [of "y - 1"] by simp

text \<open>
  \<^verbatim>\<open>YearFromTime(t)\<close> is "the largest integer y such that TimeFromYear(y) \<le> t".
  It is computed by a search from an estimate: first down to a year that starts no later
  than the day, then up to the last such year.
\<close>

function yearDown :: "int \<Rightarrow> int \<Rightarrow> int" where
  "yearDown d y = (if d < DayFromYear y then yearDown d (y - 1) else y)"
  by pat_completeness auto
termination
proof (relation "measure (\<lambda>(d, y). nat (DayFromYear y - d))")
  show "wf (measure (\<lambda>(d, y). nat (DayFromYear y - d)))"
    by simp
next
  fix d y :: int
  assume "d < DayFromYear y"
  then show "((d, y - 1), (d, y)) \<in> measure (\<lambda>(d, y). nat (DayFromYear y - d))"
    using DayFromYear_pred_less [of y] by simp
qed

function yearUp :: "int \<Rightarrow> int \<Rightarrow> int" where
  "yearUp d y = (if DayFromYear (y + 1) \<le> d then yearUp d (y + 1) else y)"
  by pat_completeness auto
termination
proof (relation "measure (\<lambda>(d, y). nat (d + 1 - DayFromYear (y + 1)))")
  show "wf (measure (\<lambda>(d, y). nat (d + 1 - DayFromYear (y + 1))))"
    by simp
next
  fix d y :: int
  assume "DayFromYear (y + 1) \<le> d"
  then show "((d, y + 1), (d, y)) \<in> measure (\<lambda>(d, y). nat (d + 1 - DayFromYear (y + 1)))"
    using DayFromYear_less_Suc [of "y + 1"] by simp
qed

definition YearFromTime :: "int \<Rightarrow> int" where
  "YearFromTime t = yearUp (Day t) (yearDown (Day t) (1970 + Day t div 365))"

definition InLeapYear :: "int \<Rightarrow> int" where
  "InLeapYear t = (if DaysInYear (YearFromTime t) = 365 then 0 else 1)"

definition DayWithinYear :: "int \<Rightarrow> int" where
  "DayWithinYear t = Day t - DayFromYear (YearFromTime t)"

text \<open>Months are numbered from 0 (January) to 11 (December).\<close>

definition MonthFromTime :: "int \<Rightarrow> int" where
  "MonthFromTime t =
     (let d = DayWithinYear t; l = InLeapYear t in
      if d < 31 then 0
      else if d < 59 + l then 1
      else if d < 90 + l then 2
      else if d < 120 + l then 3
      else if d < 151 + l then 4
      else if d < 181 + l then 5
      else if d < 212 + l then 6
      else if d < 243 + l then 7
      else if d < 273 + l then 8
      else if d < 304 + l then 9
      else if d < 334 + l then 10
      else 11)"

definition DateFromTime :: "int \<Rightarrow> int" where
  "DateFromTime t =
     (let d = DayWithinYear t; l = InLeapYear t; m = MonthFromTime t in
      if m = 0 then d + 1
      else if m = 1 then d - 30
      else if m = 2 then d - 58 - l
      else if m = 3 then d - 89 - l
      else if m = 4 then d - 119 - l
      else if m = 5 then d - 150 - l
      else if m = 6 then d - 180 - l
      else if m = 7 then d - 211 - l
      else if m = 8 then d - 242 - l
      else if m = 9 then d - 272 - l
      else if m = 10 then d - 303 - l
      else d - 333 - l)"

text \<open>
  \<^verbatim>\<open>MakeDay(year, month, date)\<close> finds the time value \<open>t\<close> of the first day of the month
  (\<open>YearFromTime t = ym\<close>, \<open>MonthFromTime t = mn\<close>, \<open>DateFromTime t = 1\<close>) and returns
  \<open>Day t + date - 1\<close>. \<open>firstDayOfMonth\<close> is the number of days of year \<open>ym\<close> before
  month \<open>mn\<close>.
\<close>

definition firstDayOfMonth :: "int \<Rightarrow> int \<Rightarrow> int" where
  "firstDayOfMonth ym mn =
     (let l = (if DaysInYear ym = 365 then 0 else 1) in
      if mn = 0 then 0
      else if mn = 1 then 31
      else if mn = 2 then 59 + l
      else if mn = 3 then 90 + l
      else if mn = 4 then 120 + l
      else if mn = 5 then 151 + l
      else if mn = 6 then 181 + l
      else if mn = 7 then 212 + l
      else if mn = 8 then 243 + l
      else if mn = 9 then 273 + l
      else if mn = 10 then 304 + l
      else 334 + l)"

definition MakeDay :: "int \<Rightarrow> int \<Rightarrow> int \<Rightarrow> int" where
  "MakeDay year month date =
     (let ym = year + month div 12;
          mn = month mod 12;
          t = msPerDay * (DayFromYear ym + firstDayOfMonth ym mn)
      in Day t + date - 1)"

definition MakeDate :: "int \<Rightarrow> int \<Rightarrow> int" where
  "MakeDate day time = day * msPerDay + time"

definition TimeClip :: "int \<Rightarrow> int option" where
  "TimeClip time = (if \<bar>time\<bar> > 8640000000000000 then None else Some time)"

text \<open>
  The local time zone is whatever the host is configured with; it is a parameter of the
  model, the function \<^verbatim>\<open>LocalTZA(t, isUTC)\<close> of ECMA-262: the offset of local time from
  UTC in milliseconds, at the UTC instant \<open>t\<close> when \<open>isUTC\<close> and at the local time \<open>t\<close>
  otherwise.
\<close>

type_synonym LocalTZA = "int \<Rightarrow> bool \<Rightarrow> int"

definition LocalTime :: "LocalTZA \<Rightarrow> int \<Rightarrow> int" where
  "LocalTime tza t = t + tza t True"

definition UTC :: "LocalTZA \<Rightarrow> int \<Rightarrow> int" where
  "UTC tza t = t - tza t False"

definition getFullYear :: "LocalTZA \<Rightarrow> int \<Rightarrow> int" where
  "getFullYear tza t = YearFromTime (LocalTime tza t)"

definition getMonth :: "LocalTZA \<Rightarrow> int \<Rightarrow> int" where
  "getMonth tza t = MonthFromTime (LocalTime tza t)"

definition getDate :: "LocalTZA \<Rightarrow> int \<Rightarrow> int" where
  "getDate tza t = DateFromTime (LocalTime tza t)"

text \<open>\<^verbatim>\<open>Date.prototype.setDate(date)\<close>: the new time value of the Date, NaN when out of range.\<close>

definition setDate :: "LocalTZA \<Rightarrow> int \<Rightarrow> int \<Rightarrow> int option" where
  "setDate tza t date =
     (let localT = LocalTime tza t;
          newDate = MakeDate (MakeDay (YearFromTime localT) (MonthFromTime localT) date)
                      (TimeWithinDay localT)
      in TimeClip (UTC tza newDate))"

text \<open>A zone with a constant offset from UTC, such as UTC itself.\<close>

definition fixedOffset :: "int \<Rightarrow> LocalTZA" where
  "fixedOffset off = (\<lambda>t isUTC. off)"

text \<open>
  America/Nuuk around its change to summer time on 31 March 2024 at 01:00 UTC
  (time value 1711846800000): two hours behind UTC before the change, one hour after it.
  The local clock jumps from 23:00 on 30 March to 00:00 on 31 March (local 1711843200000);
  a local time in the skipped hour is read with the offset before the change, as
  ECMA-262 prescribes. The other changes of the zone are left out.
\<close>

definition nuuk2024 :: LocalTZA where
  "nuuk2024 t isUTC =
     (if isUTC then (if t < 1711846800000 then - 7200000 else - 3600000)
      else (if t < 1711843200000 then - 7200000 else - 3600000))"

section \<open>The data model (shared schema)\<close>

text \<open>
  Timestamps are time values of Date objects; a nullable column is an \<open>option\<close> whose
  \<open>None\<close> is \<^verbatim>\<open>null\<close>. The columns \<^verbatim>\<open>id\<close> and \<^verbatim>\<open>createdAt\<close> exist in both tables and
  are named \<open>habitId\<close>, \<open>habitCreatedAt\<close>, \<open>sessionId\<close> and \<open>sessionCreatedAt\<close> here.
  Streaks and minutes are numbers holding integers, modelled as \<open>int\<close>.
  Columns with a database default (\<^verbatim>\<open>frequency\<close>, \<^verbatim>\<open>sessionType\<close>) are optional in the
  insert schemas, and the in-memory store fills in no default, so they are optional in
  the stored record as well.
\<close>

datatype Frequency = Daily | Weekly

datatype SessionType = Focus | Break

record Habit =
  habitId :: string
  name :: string
  description :: "string option"
  frequency :: "Frequency option"
  currentStreak :: int
  bestStreak :: int
  lastCompletedAt :: "int option"
  habitCreatedAt :: int

text \<open>\<^verbatim>\<open>InsertHabit\<close>: the habit columns without id, createdAt, the streaks and lastCompletedAt.\<close>

record InsertHabit =
  insertName :: string
  insertDescription :: "string option"
  insertFrequency :: "Frequency option"

text \<open>\<^verbatim>\<open>Partial<Habit>\<close>: every key may be absent (\<open>None\<close>); a present key carries its value.\<close>

record PartialHabit =
  habitId_opt :: "string option"
  name_opt :: "string option"
  description_opt :: "string option option"
  frequency_opt :: "Frequency option option"
  currentStreak_opt :: "int option"
  bestStreak_opt :: "int option"
  lastCompletedAt_opt :: "int option option"
  habitCreatedAt_opt :: "int option"

record FocusSession =
  sessionId :: string
  startTime :: int
  endTime :: "int option"
  durationMinutes :: "int option"
  sessionType :: "SessionType option"
  taskId :: "string option"
  sessionCreatedAt :: int

record InsertFocusSession =
  insertStartTime :: int
  insertEndTime :: "int option"
  insertDurationMinutes :: "int option"
  insertSessionType :: "SessionType option"
  insertTaskId :: "string option"

record PartialFocusSession =
  sessionId_opt :: "string option"
  startTime_opt :: "int option"
  endTime_opt :: "int option option"
  durationMinutes_opt :: "int option option"
  sessionType_opt :: "SessionType option option"
  taskId_opt :: "string option option"
  sessionCreatedAt_opt :: "int option"

section \<open>The in-memory store (server/storage.ts)\<close>

text \<open>
  \<^verbatim>\<open>MemStorage\<close> keeps one \<^verbatim>\<open>Map\<close> from id to record per table. The maps of tasks and notes
  are not touched by any operation below and are left out. Every method takes the store
  and returns the new store with its result; \<^verbatim>\<open>randomUUID()\<close> and \<^verbatim>\<open>new Date()\<close> are inputs.
\<close>

record MemStorage =
  focusSessions :: "string \<rightharpoonup> FocusSession"
  habits :: "string \<rightharpoonup> Habit"

definition newMemStorage :: MemStorage where
  "newMemStorage = \<lparr>focusSessions = Map.empty, habits = Map.empty\<rparr>"

text \<open>
  \<^verbatim>\<open>x || null\<close>: a falsy \<open>x\<close> becomes \<^verbatim>\<open>null\<close>. The empty string and the number 0 are
  falsy; a Date object never is.
\<close>

definition stringOrNull :: "string option \<Rightarrow> string option" where
  "stringOrNull x = (case x of None \<Rightarrow> None | Some s \<Rightarrow> if s = [] then None else Some s)"

definition numberOrNull :: "int option \<Rightarrow> int option" where
  "numberOrNull x = (case x of None \<Rightarrow> None | Some n \<Rightarrow> if n = 0 then None else Some n)"

definition dateOrNull :: "int option \<Rightarrow> int option" where
  "dateOrNull x = (case x of None \<Rightarrow> None | Some d \<Rightarrow> Some d)"

text \<open>The object spread \<^verbatim>\<open>{ ...record, ...updates }\<close>: the keys present in the updates win.\<close>

definition override :: "'a \<Rightarrow> 'a option \<Rightarrow> 'a" where
  "override old upd = (case upd of None \<Rightarrow> old | Some v \<Rightarrow> v)"

definition spreadHabit :: "Habit \<Rightarrow> PartialHabit \<Rightarrow> Habit" where
  "spreadHabit habit updates =
     \<lparr>habitId = override (habitId habit) (habitId_opt updates),
      name = override (name habit) (name_opt updates),
      description = override (description habit) (description_opt updates),
      frequency = override (frequency habit) (frequency_opt updates),
      currentStreak = override (currentStreak habit) (currentStreak_opt updates),
      bestStreak = override (bestStreak habit) (bestStreak_opt updates),
      lastCompletedAt = override (lastCompletedAt habit) (lastCompletedAt_opt updates),
      habitCreatedAt = override (habitCreatedAt habit) (habitCreatedAt_opt updates)\<rparr>"

definition spreadFocusSession :: "FocusSession \<Rightarrow> PartialFocusSession \<Rightarrow> FocusSession" where
  "spreadFocusSession session updates =
     \<lparr>sessionId = override (sessionId session) (sessionId_opt updates),
      startTime = override (startTime session) (startTime_opt updates),
      endTime = override (endTime session) (endTime_opt updates),
      durationMinutes = override (durationMinutes session) (durationMinutes_opt updates),
      sessionType = override (sessionType session) (sessionType_opt updates),
      taskId = override (taskId session) (taskId_opt updates),
      sessionCreatedAt = override (sessionCreatedAt session) (sessionCreatedAt_opt updates)\<rparr>"

definition noHabitUpdates :: PartialHabit where
  "noHabitUpdates =
     \<lparr>habitId_opt = None, name_opt = None, description_opt = None, frequency_opt = None,
      currentStreak_opt = None, bestStreak_opt = None, lastCompletedAt_opt = None,
      habitCreatedAt_opt = None\<rparr>"

definition noFocusSessionUpdates :: PartialFocusSession where
  "noFocusSessionUpdates =
     \<lparr>sessionId_opt = None, startTime_opt = None, endTime_opt = None,
      durationMinutes_opt = None, sessionType_opt = None, taskId_opt = None,
      sessionCreatedAt_opt = None\<rparr>"

subsection \<open>Focus sessions\<close>

definition getFocusSession :: "MemStorage \<Rightarrow> string \<Rightarrow> FocusSession option" where
  "getFocusSession st id' = focusSessions st id'"

definition createFocusSession ::
  "MemStorage \<Rightarrow> string \<Rightarrow> int \<Rightarrow> InsertFocusSession \<Rightarrow> MemStorage \<times> FocusSession" where
  "createFocusSession st uuid now insertSession =
     (let session =
        \<lparr>sessionId = uuid,
         startTime = insertStartTime insertSession,
         endTime = dateOrNull (insertEndTime insertSession),
         durationMinutes = numberOrNull (insertDurationMinutes insertSession),
         sessionType = insertSessionType insertSession,
         taskId = stringOrNull (insertTaskId insertSession),
         sessionCreatedAt = now\<rparr>
      in (st\<lparr>focusSessions := (focusSessions st)(uuid \<mapsto> session)\<rparr>, session))"

definition updateFocusSession ::
  "MemStorage \<Rightarrow> string \<Rightarrow> PartialFocusSession \<Rightarrow> MemStorage \<times> FocusSession option" where
  "updateFocusSession st id' updates =
     (case focusSessions st id' of
        None \<Rightarrow> (st, None)
      | Some session \<Rightarrow>
          (let updated = spreadFocusSession session updates
           in (st\<lparr>focusSessions := (focusSessions st)(id' \<mapsto> updated)\<rparr>, Some updated)))"

subsection \<open>Habits\<close>

definition getHabit :: "MemStorage \<Rightarrow> string \<Rightarrow> Habit option" where
  "getHabit st id' = habits st id'"

definition createHabit ::
  "MemStorage \<Rightarrow> string \<Rightarrow> int \<Rightarrow> InsertHabit \<Rightarrow> MemStorage \<times> Habit" where
  "createHabit st uuid now insertHabit =
     (let habit =
        \<lparr>habitId = uuid,
         name = insertName insertHabit,
         description = stringOrNull (insertDescription insertHabit),
         frequency = insertFrequency insertHabit,
         currentStreak = 0,
         bestStreak = 0,
         lastCompletedAt = None,
         habitCreatedAt = now\<rparr>
      in (st\<lparr>habits := (habits st)(uuid \<mapsto> habit)\<rparr>, habit))"

definition updateHabit ::
  "MemStorage \<Rightarrow> string \<Rightarrow> PartialHabit \<Rightarrow> MemStorage \<times> Habit option" where
  "updateHabit st id' updates =
     (case habits st id' of
        None \<Rightarrow> (st, None)
      | Some habit \<Rightarrow>
          (let updated = spreadHabit habit updates
           in (st\<lparr>habits := (habits st)(id' \<mapsto> updated)\<rparr>, Some updated)))"

definition deleteHabit :: "MemStorage \<Rightarrow> string \<Rightarrow> MemStorage \<times> bool" where
  "deleteHabit st id' = (st\<lparr>habits := (habits st)(id' := None)\<rparr>, habits st id' \<noteq> None)"

section \<open>The route handlers (server/routes.ts)\<close>

text \<open>
  A handler takes the store and the request and returns the new store with its response:
  \<open>Inr\<close> the JSON body of a success, \<open>Inl\<close> the error of a 4xx response.
  \<open>NotFound\<close> is the status 404 ("Habit not found", "Session not found"),
  \<open>AlreadyCheckedInToday\<close> the status 400 "Already checked in today",
  \<open>SessionIdRequired\<close> the status 400 "Session ID is required" and
  \<open>ValidationFailed\<close> the status 400 of a payload that the insert schema rejects.
\<close>

datatype error = NotFound | AlreadyCheckedInToday | SessionIdRequired | ValidationFailed

text \<open>
  A property of a request body is any JSON value, or absent. Numbers are restricted to
  integers here; \<open>JsObject\<close> stands for every array and object.
\<close>

datatype jsValue =
  JsUndefined | JsNull | JsBoolean bool | JsNumber int | JsString string | JsObject

fun truthy :: "jsValue \<Rightarrow> bool" where
  "truthy JsUndefined = False"
| "truthy JsNull = False"
| "truthy (JsBoolean b) = b"
| "truthy (JsNumber n) = (n \<noteq> 0)"
| "truthy (JsString s) = (s \<noteq> [])"
| "truthy JsObject = True"

subsection \<open>POST /api/focus-sessions/start\<close>

text \<open>
  \<^verbatim>\<open>insertFocusSessionSchema.parse\<close> on the object the handler builds: the start time is a
  valid Date, the end time and the duration are \<^verbatim>\<open>null\<close>; the session type has to be one of
  the two enum strings and the task id a string or \<^verbatim>\<open>null\<close>. \<open>None\<close> is the thrown error.
\<close>

fun parseSessionType :: "jsValue \<Rightarrow> SessionType option" where
  "parseSessionType (JsString s) =
     (if s = ''focus'' then Some Focus else if s = ''break'' then Some Break else None)"
| "parseSessionType _ = None"

fun parseTaskId :: "jsValue \<Rightarrow> string option option" where
  "parseTaskId JsNull = Some None"
| "parseTaskId (JsString s) = Some (Some s)"
| "parseTaskId _ = None"

definition insertFocusSessionSchema_parse ::
  "int \<Rightarrow> jsValue \<Rightarrow> jsValue \<Rightarrow> InsertFocusSession option" where
  "insertFocusSessionSchema_parse startTime' sessionType' taskId' =
     (case parseSessionType sessionType' of
        None \<Rightarrow> None
      | Some ty \<Rightarrow>
          (case parseTaskId taskId' of
             None \<Rightarrow> None
           | Some tid \<Rightarrow>
               Some \<lparr>insertStartTime = startTime', insertEndTime = None,
                     insertDurationMinutes = None, insertSessionType = Some ty,
                     insertTaskId = tid\<rparr>))"

text \<open>
  The handler reads the clock (\<open>now\<close>) for the start time; the store reads it again
  (\<open>created\<close>) for \<^verbatim>\<open>createdAt\<close>.
\<close>

definition startSession ::
  "MemStorage \<Rightarrow> string \<Rightarrow> int \<Rightarrow> int \<Rightarrow> jsValue \<Rightarrow> jsValue
     \<Rightarrow> MemStorage \<times> (error + FocusSession)" where
  "startSession st uuid now created bodySessionType bodyTaskId =
     (case insertFocusSessionSchema_parse now
             (if truthy bodySessionType then bodySessionType else JsString ''focus'')
             (if truthy bodyTaskId then bodyTaskId else JsNull) of
        None \<Rightarrow> (st, Inl ValidationFailed)
      | Some validatedData \<Rightarrow>
          (case createFocusSession st uuid created validatedData of
             (st', session) \<Rightarrow> (st', Inr session)))"

subsection \<open>POST /api/focus-sessions/end\<close>

text \<open>
  \<^verbatim>\<open>Math.floor((endTime.getTime() - new Date(session.startTime).getTime()) / 60000)\<close>:
  the difference of two time values is an integer, and the floor of its quotient is the
  integer division of HOL, which rounds down. (The quotient of the code is a double; its
  floor is the floor of the exact quotient for every difference below \<open>2 ^ 53\<close>, some
  285000 years.)
  The id of the body is any JSON value; only a string can be a key of the map.
\<close>

definition endSession ::
  "MemStorage \<Rightarrow> jsValue \<Rightarrow> int \<Rightarrow> MemStorage \<times> (error + FocusSession option)" where
  "endSession st bodyId now =
     (if \<not> truthy bodyId then (st, Inl SessionIdRequired)
      else
        (case bodyId of
           JsString id' \<Rightarrow>
             (case getFocusSession st id' of
                None \<Rightarrow> (st, Inl NotFound)
              | Some session \<Rightarrow>
                  (let endTime' = now;
                       durationMinutes' = (endTime' - startTime session) div 60000
                   in case updateFocusSession st id'
                             (noFocusSessionUpdates
                                \<lparr>endTime_opt := Some (Some endTime'),
                                 durationMinutes_opt := Some (Some durationMinutes')\<rparr>) of
                        (st', updatedSession) \<Rightarrow> (st', Inr updatedSession)))
         | _ \<Rightarrow> (st, Inl NotFound)))"

subsection \<open>POST /api/habits, POST /api/habits/:id/check-in, DELETE /api/habits/:id\<close>

text \<open>The payload of \<open>postHabit\<close> is one that \<^verbatim>\<open>insertHabitSchema.parse\<close> has accepted.\<close>

definition postHabit ::
  "MemStorage \<Rightarrow> string \<Rightarrow> int \<Rightarrow> InsertHabit \<Rightarrow> MemStorage \<times> (error + Habit)" where
  "postHabit st uuid now validatedData =
     (case createHabit st uuid now validatedData of (st', habit) \<Rightarrow> (st', Inr habit))"

text \<open>
  The comparison \<^verbatim>\<open>===\<close> of a calendar field of \<open>lastCompleted\<close> with one of \<open>yesterday\<close>
  is false when \<open>yesterday\<close> is an invalid Date, whose fields are NaN.
\<close>

definition checkIn ::
  "LocalTZA \<Rightarrow> MemStorage \<Rightarrow> string \<Rightarrow> int \<Rightarrow> MemStorage \<times> (error + Habit option)" where
  "checkIn tza st id' now =
     (case getHabit st id' of
        None \<Rightarrow> (st, Inl NotFound)
      | Some habit \<Rightarrow>
          (let finish = (\<lambda>newStreak.
                 let newBestStreak = max (bestStreak habit) newStreak
                 in case updateHabit st id'
                           (noHabitUpdates
                              \<lparr>currentStreak_opt := Some newStreak,
                               bestStreak_opt := Some newBestStreak,
                               lastCompletedAt_opt := Some (Some now)\<rparr>) of
                      (st', updatedHabit) \<Rightarrow> (st', Inr updatedHabit))
           in case lastCompletedAt habit of
                Some lastCompleted \<Rightarrow>
                  (let isSameDay =
                         (getDate tza lastCompleted = getDate tza now
                          \<and> getMonth tza lastCompleted = getMonth tza now
                          \<and> getFullYear tza lastCompleted = getFullYear tza now)
                   in if isSameDay then (st, Inl AlreadyCheckedInToday)
                      else
                        (let isConsecutive =
                               (case setDate tza now (getDate tza now - 1) of
                                  None \<Rightarrow> False
                                | Some yesterday \<Rightarrow>
                                    getDate tza lastCompleted = getDate tza yesterday
                                    \<and> getMonth tza lastCompleted = getMonth tza yesterday
                                    \<and> getFullYear tza lastCompleted = getFullYear tza yesterday)
                         in finish (if isConsecutive then currentStreak habit + 1 else 1)))
              | None \<Rightarrow> finish 1))"

definition deleteHabitRoute :: "MemStorage \<Rightarrow> string \<Rightarrow> MemStorage \<times> (error + unit)" where
  "deleteHabitRoute st id' =
     (case deleteHabit st id' of
        (st', success) \<Rightarrow> if \<not> success then (st', Inl NotFound) else (st', Inr ()))"

subsection \<open>Sequences of requests\<close>

text \<open>
  The requests that write to the store, each with the values it reads from its
  environment (the fresh id, the clock), and the store after a sequence of them,
  starting from the empty store of a new process.
\<close>

datatype request =
  PostHabit string int InsertHabit
| CheckIn string int
| DeleteHabit string
| StartSession string int int jsValue jsValue
| EndSession jsValue int

fun handle :: "LocalTZA \<Rightarrow> MemStorage \<Rightarrow> request \<Rightarrow> MemStorage" where
  "handle tza st (PostHabit uuid now validatedData) = fst (postHabit st uuid now validatedData)"
| "handle tza st (CheckIn id' now) = fst (checkIn tza st id' now)"
| "handle tza st (DeleteHabit id') = fst (deleteHabitRoute st id')"
| "handle tza st (StartSession uuid now created ty tid) =
     fst (startSession st uuid now created ty tid)"
| "handle tza st (EndSession bodyId now) = fst (endSession st bodyId now)"

definition serve :: "LocalTZA \<Rightarrow> request list \<Rightarrow> MemStorage" where
  "serve tza reqs = foldl (handle tza) newMemStorage reqs"

section \<open>Calendar days and rounding\<close>

text \<open>
  Two notions the properties below are stated with. The local calendar day of a time
  value is \<open>Day (LocalTime tza t)\<close>. A local time keeps its calendar day when
  reading it back through UTC, as \<^verbatim>\<open>setDate\<close> does, lands on the same local day: so it is
  in every zone with a constant offset, and in a zone with daylight saving unless the
  clock change skips over midnight.
\<close>

definition localDay :: "LocalTZA \<Rightarrow> int \<Rightarrow> int" where
  "localDay tza t = Day (LocalTime tza t)"

definition keepsCalendarDay :: "LocalTZA \<Rightarrow> int \<Rightarrow> bool" where
  "keepsCalendarDay tza localT \<longleftrightarrow> Day (LocalTime tza (UTC tza localT)) = Day localT"

text \<open>
  The weaker half of it: the local time is read back on its own calendar day or a later
  one. A local time that exists is read back as itself and one that a clock change skips
  is read with the offset before the change, which is later, so this holds also where
  the change skips over midnight.
\<close>

definition readsBackNoEarlier :: "LocalTZA \<Rightarrow> int \<Rightarrow> bool" where
  "readsBackNoEarlier tza localT \<longleftrightarrow> Day localT \<le> Day (LocalTime tza (UTC tza localT))"

text \<open>Quotient rounded toward zero, for comparison with the rounding of \<open>endSession\<close>.\<close>

definition truncatedQuotient :: "int \<Rightarrow> int \<Rightarrow> int" where
  "truncatedQuotient a b = sgn a * sgn b * (\<bar>a\<bar> div \<bar>b\<bar>)"

section \<open>Sample records\<close>

text \<open>Concrete records and stores on which the properties below are exercised.\<close>

definition sampleHabit :: "int \<Rightarrow> int \<Rightarrow> int option \<Rightarrow> Habit" where
  "sampleHabit streak best completed =
     \<lparr>habitId = ''h1'', name = ''Read'', description = None, frequency = Some Daily,
      currentStreak = streak, bestStreak = best, lastCompletedAt = completed,
      habitCreatedAt = 0\<rparr>"

definition sampleSession :: "int \<Rightarrow> int option \<Rightarrow> int option \<Rightarrow> FocusSession" where
  "sampleSession started ended minutes =
     \<lparr>sessionId = ''s1'', startTime = started, endTime = ended, durationMinutes = minutes,
      sessionType = Some Focus, taskId = None, sessionCreatedAt = started\<rparr>"

definition storeOfHabit :: "Habit \<Rightarrow> MemStorage" where
  "storeOfHabit habit = \<lparr>focusSessions = Map.empty, habits = [habitId habit \<mapsto> habit]\<rparr>"

definition storeOfSession :: "FocusSession \<Rightarrow> MemStorage" where
  "storeOfSession session =
     \<lparr>focusSessions = [sessionId session \<mapsto> session], habits = Map.empty\<rparr>"

section \<open>Facts about the calendar\<close>

lemma msPerDay_pos: "0 < msPerDay"
  by (simp add: msPerDay_def)

lemma DayFromYear_mono: "y \<le> y' \<Longrightarrow> DayFromYear y \<le> DayFromYear y'"
proof (induction y' rule: int_ge_induct)
  case base
  show ?case by simp
next
  case (step i)
  then show ?case
    using DayFromYear_less_Suc [of i] by simp
qed

lemma DayFromYear_strict_mono: "y < y' \<Longrightarrow> DayFromYear y < DayFromYear y'"
  using DayFromYear_mono [of "y + 1" y'] DayFromYear_less_Suc [of y] by simp

lemma yearDown_le: "DayFromYear (yearDown d y) \<le> d"
proof (induction d y rule: yearDown.induct)
  case (1 d y)
  show ?case
  proof (cases "d < DayFromYear y")
    case True
    with "1" show ?thesis
      by (subst yearDown.simps) simp
  next
    case False
    then show ?thesis
      by (subst yearDown.simps) simp
  qed
qed

lemma yearUp_bounds:
  "DayFromYear y \<le> d \<Longrightarrow>
   DayFromYear (yearUp d y) \<le> d \<and> d < DayFromYear (yearUp d y + 1)"
proof (induction d y rule: yearUp.induct)
  case (1 d y)
  show ?case
  proof (cases "DayFromYear (y + 1) \<le> d")
    case True
    with "1" show ?thesis
      by (subst (1 2) yearUp.simps) simp
  next
    case False
    with "1.prems" show ?thesis
      by (subst (1 2) yearUp.simps) simp
  qed
qed

lemma YearFromTime_bounds:
  "DayFromYear (YearFromTime t) \<le> Day t \<and> Day t < DayFromYear (YearFromTime t + 1)"
  unfolding YearFromTime_def by (rule yearUp_bounds) (rule yearDown_le)

lemma TimeFromYear_le_iff: "TimeFromYear y \<le> t \<longleftrightarrow> DayFromYear y \<le> Day t"
proof -
  have "a \<le> t div 86400000 \<longleftrightarrow> 86400000 * a \<le> t" for a :: int
    by arith
  then show ?thesis
    by (simp add: TimeFromYear_def Day_def msPerDay_def)
qed

text \<open>The search computes what ECMA-262 defines: the largest year that starts no later than \<open>t\<close>.\<close>

lemma YearFromTime_largest:
  "TimeFromYear (YearFromTime t) \<le> t \<and> (\<forall>y. TimeFromYear y \<le> t \<longrightarrow> y \<le> YearFromTime t)"
proof (intro conjI allI impI)
  show "TimeFromYear (YearFromTime t) \<le> t"
    using YearFromTime_bounds [of t] by (simp add: TimeFromYear_le_iff)
next
  fix y
  assume "TimeFromYear y \<le> t"
  then have le: "DayFromYear y \<le> Day t"
    by (simp add: TimeFromYear_le_iff)
  show "y \<le> YearFromTime t"
  proof (rule ccontr)
    assume "\<not> y \<le> YearFromTime t"
    then have "YearFromTime t + 1 \<le> y"
      by simp
    then have "DayFromYear (YearFromTime t + 1) \<le> DayFromYear y"
      by (rule DayFromYear_mono)
    with le YearFromTime_bounds [of t] show False
      by simp
  qed
qed

lemma InLeapYear_DaysInYear: "DaysInYear (YearFromTime t) = 365 + InLeapYear t"
  by (simp add: InLeapYear_def DaysInYear_def)

lemma InLeapYear_cases: "InLeapYear t = 0 \<or> InLeapYear t = 1"
  by (simp add: InLeapYear_def)

lemma DayWithinYear_range: "0 \<le> DayWithinYear t \<and> DayWithinYear t < 365 + InLeapYear t"
  using YearFromTime_bounds [of t] DayFromYear_Suc [of "YearFromTime t"]
  by (simp add: DayWithinYear_def InLeapYear_DaysInYear)

lemma MonthFromTime_range: "0 \<le> MonthFromTime t \<and> MonthFromTime t \<le> 11"
  by (simp add: MonthFromTime_def Let_def)

lemma firstDayOfMonth_year: "firstDayOfMonth (YearFromTime t) m =
     (let l = InLeapYear t in
      if m = 0 then 0
      else if m = 1 then 31
      else if m = 2 then 59 + l
      else if m = 3 then 90 + l
      else if m = 4 then 120 + l
      else if m = 5 then 151 + l
      else if m = 6 then 181 + l
      else if m = 7 then 212 + l
      else if m = 8 then 243 + l
      else if m = 9 then 273 + l
      else if m = 10 then 304 + l
      else 334 + l)"
  by (simp add: firstDayOfMonth_def InLeapYear_def)

lemma DateFromTime_eq:
  "DateFromTime t = DayWithinYear t - firstDayOfMonth (YearFromTime t) (MonthFromTime t) + 1"
  unfolding firstDayOfMonth_year DateFromTime_def
  by (simp add: MonthFromTime_def Let_def)

lemma DateFromTime_range: "1 \<le> DateFromTime t \<and> DateFromTime t \<le> 31"
  using DayWithinYear_range [of t] InLeapYear_cases [of t]
  unfolding DateFromTime_def MonthFromTime_def Let_def
  by auto


lemma Day_from_fields:
  "Day t = DayFromYear (YearFromTime t) + firstDayOfMonth (YearFromTime t) (MonthFromTime t)
           + DateFromTime t - 1"
proof -
  have "DateFromTime t
        = Day t - DayFromYear (YearFromTime t)
          - firstDayOfMonth (YearFromTime t) (MonthFromTime t) + 1"
    unfolding DateFromTime_eq DayWithinYear_def ..
  then show ?thesis
    by linarith
qed

lemma fields_determine_Day:
  assumes "YearFromTime a = YearFromTime b"
    and "MonthFromTime a = MonthFromTime b"
    and "DateFromTime a = DateFromTime b"
  shows "Day a = Day b"
  using assms Day_from_fields [of a] Day_from_fields [of b] by presburger

lemma YearFromTime_Day_cong: "Day a = Day b \<Longrightarrow> YearFromTime a = YearFromTime b"
  by (simp add: YearFromTime_def)

lemma MonthFromTime_Day_cong: "Day a = Day b \<Longrightarrow> MonthFromTime a = MonthFromTime b"
  using YearFromTime_Day_cong [of a b]
  by (simp add: MonthFromTime_def DayWithinYear_def InLeapYear_def)

lemma DateFromTime_Day_cong: "Day a = Day b \<Longrightarrow> DateFromTime a = DateFromTime b"
  using MonthFromTime_Day_cong [of a b] YearFromTime_Day_cong [of a b]
  by (simp add: DateFromTime_def DayWithinYear_def InLeapYear_def)

lemma same_fields_iff:
  "YearFromTime a = YearFromTime b \<and> MonthFromTime a = MonthFromTime b
     \<and> DateFromTime a = DateFromTime b \<longleftrightarrow> Day a = Day b"
  using fields_determine_Day [of a b] YearFromTime_Day_cong [of a b]
    MonthFromTime_Day_cong [of a b] DateFromTime_Day_cong [of a b]
  by blast

lemma YearFromTime_unique:
  assumes "DayFromYear y \<le> Day t" and "Day t < DayFromYear (y + 1)"
  shows "YearFromTime t = y"
proof (rule antisym)
  show "YearFromTime t \<le> y"
  proof (rule ccontr)
    assume "\<not> YearFromTime t \<le> y"
    then have "DayFromYear (y + 1) \<le> DayFromYear (YearFromTime t)"
      by (intro DayFromYear_mono) simp
    with assms YearFromTime_bounds [of t] show False
      by simp
  qed
next
  show "y \<le> YearFromTime t"
    using assms(1) YearFromTime_largest [of t] by (simp add: TimeFromYear_le_iff)
qed

lemma Day_mult: "Day (msPerDay * d) = d"
  by (simp add: Day_def msPerDay_def)

lemma Day_minus_msPerDay: "Day (t - msPerDay) = Day t - 1"
  by (simp add: Day_def msPerDay_def)

lemma MakeDay_fields:
  "MakeDay (YearFromTime t) (MonthFromTime t) date = Day t - DateFromTime t + date"
proof -
  have m: "MonthFromTime t div 12 = 0" "MonthFromTime t mod 12 = MonthFromTime t"
    using MonthFromTime_range [of t] by simp_all
  show ?thesis
    unfolding MakeDay_def Let_def m Day_mult
    using Day_from_fields [of t] by simp
qed

lemma MakeDate_Day: "MakeDate (Day t + k) (TimeWithinDay t) = t + k * msPerDay"
  by (simp add: MakeDate_def Day_def TimeWithinDay_def algebra_simps)

lemma setDate_getDate_minus_1:
  "setDate tza t (getDate tza t - 1) = TimeClip (UTC tza (LocalTime tza t - msPerDay))"
  using MakeDate_Day [of "LocalTime tza t" "- 1"]
  by (simp add: setDate_def getDate_def Let_def MakeDay_fields)

lemma firstDayOfMonth_range: "0 \<le> firstDayOfMonth ym mn \<and> firstDayOfMonth ym mn < DaysInYear ym"
  by (simp add: firstDayOfMonth_def Let_def DaysInYear_def)

lemma month_cases:
  assumes "0 \<le> mn" and "mn \<le> 11"
  shows "mn = 0 \<or> mn = 1 \<or> mn = 2 \<or> mn = 3 \<or> mn = 4 \<or> mn = 5 \<or> mn = 6
         \<or> mn = 7 \<or> mn = 8 \<or> mn = 9 \<or> mn = 10 \<or> mn = (11::int)"
  using assms by arith

lemma MakeDay_first_of_month:
  fixes ym mn :: int
  assumes "0 \<le> mn" and "mn \<le> 11"
  defines "t \<equiv> msPerDay * (DayFromYear ym + firstDayOfMonth ym mn)"
  shows "YearFromTime t = ym \<and> MonthFromTime t = mn \<and> DateFromTime t = 1"
proof -
  have d: "Day t = DayFromYear ym + firstDayOfMonth ym mn"
    by (simp add: t_def Day_mult)
  have y: "YearFromTime t = ym"
    using firstDayOfMonth_range [of ym mn]
    by (intro YearFromTime_unique) (simp_all add: d DayFromYear_Suc)
  have w: "DayWithinYear t = firstDayOfMonth ym mn"
    by (simp add: DayWithinYear_def y d)
  have l: "InLeapYear t = (if DaysInYear ym = 365 then 0 else 1)"
    by (simp add: InLeapYear_def y)
  have m: "MonthFromTime t = mn"
    using month_cases [OF assms(1,2)]
    unfolding MonthFromTime_def w l firstDayOfMonth_def Let_def
    by (elim disjE) simp_all
  have "DateFromTime t = 1"
    using month_cases [OF assms(1,2)]
    unfolding DateFromTime_def m w l firstDayOfMonth_def Let_def
    by (elim disjE) simp_all
  with y m show ?thesis
    by simp
qed

section \<open>Facts about the handlers\<close>

lemma same_calendar_fields_iff:
  "getDate tza a = getDate tza b \<and> getMonth tza a = getMonth tza b
     \<and> getFullYear tza a = getFullYear tza b \<longleftrightarrow> localDay tza a = localDay tza b"
  unfolding getDate_def getMonth_def getFullYear_def localDay_def
  using same_fields_iff [of "LocalTime tza a" "LocalTime tza b"] by blast

lemma yesterday_localDay:
  assumes "keepsCalendarDay tza (LocalTime tza now - msPerDay)"
    and "setDate tza now (getDate tza now - 1) = Some yesterday"
  shows "localDay tza yesterday = localDay tza now - 1"
proof -
  have "TimeClip (UTC tza (LocalTime tza now - msPerDay)) = Some yesterday"
    using assms(2) by (simp add: setDate_getDate_minus_1)
  then have "yesterday = UTC tza (LocalTime tza now - msPerDay)"
    by (simp add: TimeClip_def split: if_splits)
  then show ?thesis
    using assms(1) by (simp add: keepsCalendarDay_def localDay_def Day_minus_msPerDay)
qed

lemma yesterday_valid:
  assumes "TimeClip (UTC tza (LocalTime tza now - msPerDay)) \<noteq> None"
  shows "\<exists>yesterday. setDate tza now (getDate tza now - 1) = Some yesterday"
  using assms by (simp add: setDate_getDate_minus_1)

lemma spreadHabit_checkIn:
  "spreadHabit habit
     (noHabitUpdates\<lparr>currentStreak_opt := Some n, bestStreak_opt := Some b,
        lastCompletedAt_opt := Some (Some now)\<rparr>)
   = habit\<lparr>currentStreak := n, bestStreak := b, lastCompletedAt := Some now\<rparr>"
  by (simp add: spreadHabit_def noHabitUpdates_def override_def)

lemma updateHabit_checkIn:
  assumes "habits st i = Some habit"
  shows "updateHabit st i
           (noHabitUpdates\<lparr>currentStreak_opt := Some n, bestStreak_opt := Some b,
              lastCompletedAt_opt := Some (Some now)\<rparr>)
         = (st\<lparr>habits := (habits st)
                 (i \<mapsto> habit\<lparr>currentStreak := n, bestStreak := b, lastCompletedAt := Some now\<rparr>)\<rparr>,
            Some (habit\<lparr>currentStreak := n, bestStreak := b, lastCompletedAt := Some now\<rparr>))"
  using assms by (simp add: updateHabit_def Let_def spreadHabit_checkIn)

text \<open>The three outcomes of a check-in on a stored habit.\<close>

lemma checkIn_first:
  assumes "habits st i = Some habit" and "lastCompletedAt habit = None"
  shows "checkIn tza st i now
         = (st\<lparr>habits := (habits st)
                 (i \<mapsto> habit\<lparr>currentStreak := 1, bestStreak := max (bestStreak habit) 1,
                            lastCompletedAt := Some now\<rparr>)\<rparr>,
            Inr (Some (habit\<lparr>currentStreak := 1, bestStreak := max (bestStreak habit) 1,
                            lastCompletedAt := Some now\<rparr>)))"
  using assms by (simp add: checkIn_def getHabit_def Let_def updateHabit_checkIn)

lemma checkIn_same_day:
  assumes "habits st i = Some habit" and "lastCompletedAt habit = Some lastCompleted"
    and "localDay tza lastCompleted = localDay tza now"
  shows "checkIn tza st i now = (st, Inl AlreadyCheckedInToday)"
  using assms same_calendar_fields_iff [of tza lastCompleted now]
  by (simp add: checkIn_def getHabit_def Let_def)

lemma checkIn_other_day:
  assumes "habits st i = Some habit" and "lastCompletedAt habit = Some lastCompleted"
    and "localDay tza lastCompleted \<noteq> localDay tza now"
  shows "\<exists>n. (n = 1 \<or> n = currentStreak habit + 1) \<and>
           checkIn tza st i now
           = (st\<lparr>habits := (habits st)
                   (i \<mapsto> habit\<lparr>currentStreak := n, bestStreak := max (bestStreak habit) n,
                              lastCompletedAt := Some now\<rparr>)\<rparr>,
              Inr (Some (habit\<lparr>currentStreak := n, bestStreak := max (bestStreak habit) n,
                              lastCompletedAt := Some now\<rparr>)))"
proof -
  have ns: "\<not> (getDate tza lastCompleted = getDate tza now
              \<and> getMonth tza lastCompleted = getMonth tza now
              \<and> getFullYear tza lastCompleted = getFullYear tza now)"
    using assms(3) same_calendar_fields_iff [of tza lastCompleted now] by blast
  show ?thesis
    using assms(1,2) ns
    by (auto simp add: checkIn_def getHabit_def Let_def updateHabit_checkIn)
qed

lemma keepsCalendarDay_fixedOffset: "keepsCalendarDay (fixedOffset off) x"
  by (simp add: keepsCalendarDay_def fixedOffset_def LocalTime_def UTC_def)

lemma localDay_fixedOffset: "localDay (fixedOffset off) t = (t + off) div 86400000"
  by (simp add: localDay_def fixedOffset_def LocalTime_def Day_def msPerDay_def)

lemma checkIn_not_found: "habits st i = None \<Longrightarrow> checkIn tza st i now = (st, Inl NotFound)"
  by (simp add: checkIn_def getHabit_def)

lemma startSession_habits: "habits (fst (startSession st uuid now created ty tid)) = habits st"
  by (simp add: startSession_def createFocusSession_def Let_def split: option.splits)

lemma endSession_habits: "habits (fst (endSession st bodyId now)) = habits st"
  by (simp add: endSession_def getFocusSession_def updateFocusSession_def Let_def
      split: option.splits jsValue.splits)

lemma checkIn_keeps_order:
  assumes "\<forall>j h. habits st j = Some h \<longrightarrow> currentStreak h \<le> bestStreak h"
  shows "\<forall>j h. habits (fst (checkIn tza st i now)) j = Some h \<longrightarrow> currentStreak h \<le> bestStreak h"
proof (cases "habits st i")
  case None
  then show ?thesis
    using assms by (simp add: checkIn_not_found)
next
  case (Some habit)
  show ?thesis
  proof (cases "lastCompletedAt habit")
    case None
    show ?thesis
      using assms unfolding checkIn_first [OF Some None] by simp
  next
    case (Some lastCompleted)
    note l = this
    show ?thesis
    proof (cases "localDay tza lastCompleted = localDay tza now")
      case True
      show ?thesis
        using assms unfolding checkIn_same_day [OF \<open>habits st i = Some habit\<close> l True] by simp
    next
      case False
      obtain n where "checkIn tza st i now
           = (st\<lparr>habits := (habits st)
                   (i \<mapsto> habit\<lparr>currentStreak := n, bestStreak := max (bestStreak habit) n,
                              lastCompletedAt := Some now\<rparr>)\<rparr>,
              Inr (Some (habit\<lparr>currentStreak := n, bestStreak := max (bestStreak habit) n,
                              lastCompletedAt := Some now\<rparr>)))"
        using checkIn_other_day [OF \<open>habits st i = Some habit\<close> l False] by blast
      then show ?thesis
        using assms by simp
    qed
  qed
qed

lemma handle_keeps_order:
  assumes "\<forall>j h. habits st j = Some h \<longrightarrow> currentStreak h \<le> bestStreak h"
  shows "\<forall>j h. habits (handle tza st r) j = Some h \<longrightarrow> currentStreak h \<le> bestStreak h"
proof (cases r)
  case (PostHabit uuid now validatedData)
  then show ?thesis
    using assms by (simp add: postHabit_def createHabit_def Let_def)
next
  case (CheckIn i now)
  then show ?thesis
    using checkIn_keeps_order [OF assms] by simp
next
  case (DeleteHabit i)
  then show ?thesis
    using assms by (simp add: deleteHabitRoute_def deleteHabit_def)
next
  case (StartSession uuid now created ty tid)
  then show ?thesis
    using assms by (simp add: startSession_habits)
next
  case (EndSession bodyId now)
  then show ?thesis
    using assms by (simp add: endSession_habits)
qed

lemma foldl_handle_keeps_order:
  "\<forall>j h. habits st j = Some h \<longrightarrow> currentStreak h \<le> bestStreak h \<Longrightarrow>
   \<forall>j h. habits (foldl (handle tza) st reqs) j = Some h \<longrightarrow> currentStreak h \<le> bestStreak h"
proof (induction reqs arbitrary: st)
  case Nil
  then show ?case by simp
next
  case (Cons r reqs)
  show ?case
    using Cons.IH [OF handle_keeps_order [OF Cons.prems]] by simp
qed

lemma spreadFocusSession_end:
  "spreadFocusSession session
     (noFocusSessionUpdates\<lparr>endTime_opt := Some (Some e), durationMinutes_opt := Some (Some d)\<rparr>)
   = session\<lparr>endTime := Some e, durationMinutes := Some d\<rparr>"
  by (simp add: spreadFocusSession_def noFocusSessionUpdates_def override_def)

lemma endSession_stored:
  assumes "focusSessions st i = Some session" and "i \<noteq> []"
  shows "endSession st (JsString i) now
         = (st\<lparr>focusSessions := (focusSessions st)
                 (i \<mapsto> session\<lparr>endTime := Some now,
                      durationMinutes := Some ((now - startTime session) div 60000)\<rparr>)\<rparr>,
            Inr (Some (session\<lparr>endTime := Some now,
                      durationMinutes := Some ((now - startTime session) div 60000)\<rparr>)))"
  using assms
  by (simp add: endSession_def getFocusSession_def updateFocusSession_def Let_def
      spreadFocusSession_end)

lemma truncatedQuotient_nonneg: "0 \<le> a \<Longrightarrow> truncatedQuotient a 60000 = a div 60000"
  by (cases "a = 0") (simp_all add: truncatedQuotient_def)

lemma floor_minutes:
  "60000 * (a div 60000) \<le> a \<and> a < 60000 * (a div 60000 + 1)" for a :: int
  by arith

lemma startSession_succeeds_iff:
  "(\<exists>st' session. startSession st uuid now created bodySessionType bodyTaskId = (st', Inr session))
   \<longleftrightarrow> parseSessionType (if truthy bodySessionType then bodySessionType else JsString ''focus'')
         \<noteq> None
       \<and> parseTaskId (if truthy bodyTaskId then bodyTaskId else JsNull) \<noteq> None"
  by (auto simp add: startSession_def insertFocusSessionSchema_parse_def createFocusSession_def
      Let_def split: option.splits)

lemma Day_mono: "a \<le> b \<Longrightarrow> Day a \<le> Day b"
  by (simp add: Day_def msPerDay_def zdiv_mono1)

lemma keepsCalendarDay_readsBackNoEarlier:
  "keepsCalendarDay tza x \<Longrightarrow> readsBackNoEarlier tza x"
  by (simp add: keepsCalendarDay_def readsBackNoEarlier_def)

lemma readsBackNoEarlier_fixedOffset: "readsBackNoEarlier (fixedOffset off) x"
  by (simp add: keepsCalendarDay_readsBackNoEarlier keepsCalendarDay_fixedOffset)

lemma readsBackNoEarlier_nuuk2024: "readsBackNoEarlier nuuk2024 x"
proof -
  have "x \<le> LocalTime nuuk2024 (UTC nuuk2024 x)"
    by (simp add: LocalTime_def UTC_def nuuk2024_def)
  then show ?thesis
    unfolding readsBackNoEarlier_def by (rule Day_mono)
qed

lemma yesterday_localDay_ge:
  assumes "readsBackNoEarlier tza (LocalTime tza now - msPerDay)"
    and "setDate tza now (getDate tza now - 1) = Some yesterday"
  shows "localDay tza now - 1 \<le> localDay tza yesterday"
proof -
  have "TimeClip (UTC tza (LocalTime tza now - msPerDay)) = Some yesterday"
    using assms(2) by (simp add: setDate_getDate_minus_1)
  then have "yesterday = UTC tza (LocalTime tza now - msPerDay)"
    by (simp add: TimeClip_def split: if_splits)
  then show ?thesis
    using assms(1) by (simp add: readsBackNoEarlier_def localDay_def Day_minus_msPerDay)
qed

text \<open>
  Where the zone keeps the calendar day of the local time one day before \<open>now\<close>, and
  that time is a representable time value, a check-in on the day after the last
  completion adds one to the streak.
\<close>

lemma checkIn_consecutive:
  assumes "habits st i = Some habit"
    and "lastCompletedAt habit = Some lastCompleted"
    and "localDay tza lastCompleted + 1 = localDay tza now"
    and "keepsCalendarDay tza (LocalTime tza now - msPerDay)"
    and "TimeClip (UTC tza (LocalTime tza now - msPerDay)) \<noteq> None"
  shows "checkIn tza st i now
        = (st\<lparr>habits := (habits st)
                (i \<mapsto> habit\<lparr>currentStreak := currentStreak habit + 1,
                           bestStreak := max (bestStreak habit) (currentStreak habit + 1),
                           lastCompletedAt := Some now\<rparr>)\<rparr>,
           Inr (Some (habit\<lparr>currentStreak := currentStreak habit + 1,
                           bestStreak := max (bestStreak habit) (currentStreak habit + 1),
                           lastCompletedAt := Some now\<rparr>)))"
proof -
  obtain yesterday where y: "setDate tza now (getDate tza now - 1) = Some yesterday"
    using yesterday_valid [OF assms(5)] by blast
  have "localDay tza yesterday = localDay tza lastCompleted"
    using yesterday_localDay [OF assms(4) y] assms(3) by simp
  then have c: "(getDate tza lastCompleted = getDate tza yesterday
              \<and> getMonth tza lastCompleted = getMonth tza yesterday
              \<and> getFullYear tza lastCompleted = getFullYear tza yesterday) = True"
    using same_calendar_fields_iff [of tza lastCompleted yesterday] by simp
  have "localDay tza lastCompleted \<noteq> localDay tza now"
    using assms(3) by simp
  then have ns: "(getDate tza lastCompleted = getDate tza now
              \<and> getMonth tza lastCompleted = getMonth tza now
              \<and> getFullYear tza lastCompleted = getFullYear tza now) = False"
    using same_calendar_fields_iff [of tza lastCompleted now] by blast
  show ?thesis
    by (simp add: checkIn_def getHabit_def Let_def updateHabit_checkIn assms(1,2) ns c y)
qed

lemma checkIn_success_form:
  assumes "habits st i = Some habit"
    and "checkIn tza st i now = (st', Inr r)"
  shows "\<exists>n. (n = 1 \<or> n = currentStreak habit + 1)
           \<and> r = Some (habit\<lparr>currentStreak := n, bestStreak := max (bestStreak habit) n,
                               lastCompletedAt := Some now\<rparr>)
           \<and> st' = st\<lparr>habits := (habits st)
                   (i \<mapsto> habit\<lparr>currentStreak := n, bestStreak := max (bestStreak habit) n,
                              lastCompletedAt := Some now\<rparr>)\<rparr>"
proof (cases "lastCompletedAt habit")
  case None
  show ?thesis
    using assms(2) unfolding checkIn_first [OF assms(1) None] by auto
next
  case (Some lastCompleted)
  show ?thesis
  proof (cases "localDay tza lastCompleted = localDay tza now")
    case True
    show ?thesis
      using assms(2) unfolding checkIn_same_day [OF assms(1) Some True] by simp
  next
    case False
    obtain n where n: "n = 1 \<or> n = currentStreak habit + 1"
      and "checkIn tza st i now
           = (st\<lparr>habits := (habits st)
                   (i \<mapsto> habit\<lparr>currentStreak := n, bestStreak := max (bestStreak habit) n,
                              lastCompletedAt := Some now\<rparr>)\<rparr>,
              Inr (Some (habit\<lparr>currentStreak := n, bestStreak := max (bestStreak habit) n,
                              lastCompletedAt := Some now\<rparr>)))"
      using checkIn_other_day [OF assms(1) Some False] by blast
    with assms(2) have "r = Some (habit\<lparr>currentStreak := n, bestStreak := max (bestStreak habit) n,
                               lastCompletedAt := Some now\<rparr>)
           \<and> st' = st\<lparr>habits := (habits st)
                   (i \<mapsto> habit\<lparr>currentStreak := n, bestStreak := max (bestStreak habit) n,
                              lastCompletedAt := Some now\<rparr>)\<rparr>"
      by auto
    with n show ?thesis
      by blast
  qed
qed

lemma checkIn_succeeds:
  assumes "habits st i = Some habit"
    and "\<forall>lastCompleted. lastCompletedAt habit = Some lastCompleted
           \<longrightarrow> localDay tza lastCompleted \<noteq> localDay tza now"
  shows "\<exists>st' updated. checkIn tza st i now = (st', Inr (Some updated))"
proof (cases "lastCompletedAt habit")
  case None
  show ?thesis
    unfolding checkIn_first [OF assms(1) None] by blast
next
  case (Some lastCompleted)
  then have "localDay tza lastCompleted \<noteq> localDay tza now"
    using assms(2) by simp
  then show ?thesis
    using checkIn_other_day [OF assms(1) Some] by blast
qed

lemma endSession_id_required:
  "\<not> truthy bodyId \<Longrightarrow> endSession st bodyId now = (st, Inl SessionIdRequired)"
  by (simp add: endSession_def)

section \<open>The model on concrete inputs\<close>

text \<open>
  The calendar functions at some known dates, in UTC and one hour east of it:
  14 November 2023, 29 February 2000, the millisecond before the epoch, and the first
  instant of 1 March 2024; then the scenarios of the specification: a check-in on the day
  after the last one, after a gap of three days and on the same day, and a timer ended
  25 minutes and 30 seconds after its start.
\<close>

lemma calendar_examples:
  "getFullYear (fixedOffset 0) 1700000000000 = 2023"
  "getMonth (fixedOffset 0) 1700000000000 = 10"
  "getDate (fixedOffset 0) 1700000000000 = 14"
  "getDate (fixedOffset 0) 951782400000 = 29"
  "getMonth (fixedOffset 0) 951782400000 = 1"
  "getFullYear (fixedOffset 0) (- 1) = 1969"
  "getDate (fixedOffset 3600000) 1709247600000 = 1"
  "setDate (fixedOffset 0) 1709251200000 0 = Some 1709164800000"
  by code_simp+

lemma scenario_consecutive:
  "snd (checkIn (fixedOffset 0) (storeOfHabit (sampleHabit 3 5 (Some 1699913600000))) ''h1''
          1700000000000)
   = Inr (Some (sampleHabit 4 5 (Some 1700000000000)))"
  by code_simp

lemma scenario_gap:
  "snd (checkIn (fixedOffset 0) (storeOfHabit (sampleHabit 4 4 (Some 1699740800000))) ''h1''
          1700000000000)
   = Inr (Some (sampleHabit 1 4 (Some 1700000000000)))"
  by code_simp

lemma scenario_same_day:
  "snd (checkIn (fixedOffset 0) (storeOfHabit (sampleHabit 4 4 (Some 1699999997000))) ''h1''
          1700000000000)
   = Inl AlreadyCheckedInToday"
  by code_simp

lemma scenario_timer:
  "snd (endSession (storeOfSession (sampleSession 36000000 None None)) (JsString ''s1'') 37530000)
   = Inr (Some (sampleSession 36000000 (Some 37530000) (Some 25)))"
  by code_simp

section \<open>Habit check-in\<close>

text \<open>
  C1. When the last completion of a habit is on the same calendar day as the check-in,
  compared by day of month, month and year in local time, the check-in is rejected with
  \<open>AlreadyCheckedInToday\<close> and the store, hence the habit, stays as it was.
\<close>

theorem checkIn_same_day_rejected:
  assumes "getHabit st i = Some habit"
    and "lastCompletedAt habit = Some lastCompleted"
    and "getDate tza lastCompleted = getDate tza now"
    and "getMonth tza lastCompleted = getMonth tza now"
    and "getFullYear tza lastCompleted = getFullYear tza now"
  shows "checkIn tza st i now = (st, Inl AlreadyCheckedInToday)
         \<and> getHabit (fst (checkIn tza st i now)) i = Some habit"
  using assms by (simp add: checkIn_def Let_def)

theorem checkIn_same_day_rejected_witness:
  "checkIn (fixedOffset 0) (storeOfHabit (sampleHabit 4 4 (Some 1699999997000))) ''h1''
     1700000000000
   = (storeOfHabit (sampleHabit 4 4 (Some 1699999997000)), Inl AlreadyCheckedInToday)"
proof -
  have d: "localDay (fixedOffset 0) 1699999997000 = localDay (fixedOffset 0) 1700000000000"
    by (simp add: localDay_fixedOffset)
  have h: "getHabit (storeOfHabit (sampleHabit 4 4 (Some 1699999997000))) ''h1''
           = Some (sampleHabit 4 4 (Some 1699999997000))"
    by (simp add: getHabit_def storeOfHabit_def sampleHabit_def)
  have l: "lastCompletedAt (sampleHabit 4 4 (Some 1699999997000)) = Some 1699999997000"
    by (simp add: sampleHabit_def)
  show ?thesis
    using checkIn_same_day_rejected [OF h l] d
      same_calendar_fields_iff [of "fixedOffset 0" 1699999997000 1700000000000]
    by blast
qed

text \<open>
  C2. The handler means to add one to the streak when the last completion is on the
  calendar day before the check-in ("Check if consecutive day"), and so it does wherever
  the day before is found. It finds that day with \<^verbatim>\<open>setDate(getDate() - 1)\<close>, a local time
  one day back. In America/Nuuk the change to summer time skips the last hour of
  30 March 2024, so from 31 March 23:30 that local time does not exist and is read as
  31 March 00:30: a habit with streak 3 completed on 30 March at noon, checked in on
  31 March at 23:30, gets the streak 1 instead of 4.
\<close>

theorem checkIn_consecutive_day_lost:
  "localDay nuuk2024 1711807200000 + 1 = localDay nuuk2024 1711931400000
   \<and> snd (checkIn nuuk2024 (storeOfHabit (sampleHabit 3 5 (Some 1711807200000))) ''h1''
            1711931400000)
     = Inr (Some (sampleHabit 1 5 (Some 1711931400000)))"
  by code_simp

text \<open>
  C3. When the habit has never been completed, or its last completion is two or more
  local calendar days before the day of the check-in, the check-in succeeds and the
  stored streak is exactly 1. For a past completion the zone is assumed to read the
  local time one day before \<open>now\<close> back no earlier than its own calendar day.
\<close>

theorem checkIn_first_or_after_gap:
  assumes "getHabit st i = Some habit"
    and "lastCompletedAt habit = None
         \<or> (\<exists>lastCompleted. lastCompletedAt habit = Some lastCompleted
               \<and> localDay tza lastCompleted + 2 \<le> localDay tza now
               \<and> readsBackNoEarlier tza (LocalTime tza now - msPerDay))"
  shows "\<exists>st' updated. checkIn tza st i now = (st', Inr (Some updated))
           \<and> getHabit st' i = Some updated
           \<and> currentStreak updated = 1"
proof -
  have h: "habits st i = Some habit"
    using assms(1) by (simp add: getHabit_def)
  from assms(2) show ?thesis
  proof (elim disjE exE conjE)
    assume "lastCompletedAt habit = None"
    then show ?thesis
      using checkIn_first [OF h, of tza now] by (simp add: getHabit_def)
  next
    fix lastCompleted
    assume l: "lastCompletedAt habit = Some lastCompleted"
      and gap: "localDay tza lastCompleted + 2 \<le> localDay tza now"
      and k: "readsBackNoEarlier tza (LocalTime tza now - msPerDay)"
    have ns: "(getDate tza lastCompleted = getDate tza now
              \<and> getMonth tza lastCompleted = getMonth tza now
              \<and> getFullYear tza lastCompleted = getFullYear tza now) = False"
      using gap same_calendar_fields_iff [of tza lastCompleted now] by auto
    have nc: "(getDate tza lastCompleted = getDate tza yesterday
              \<and> getMonth tza lastCompleted = getMonth tza yesterday
              \<and> getFullYear tza lastCompleted = getFullYear tza yesterday) = False"
      if "setDate tza now (getDate tza now - 1) = Some yesterday" for yesterday
      using gap yesterday_localDay_ge [OF k that]
        same_calendar_fields_iff [of tza lastCompleted yesterday] by auto
    have "checkIn tza st i now
          = (st\<lparr>habits := (habits st)
                  (i \<mapsto> habit\<lparr>currentStreak := 1, bestStreak := max (bestStreak habit) 1,
                             lastCompletedAt := Some now\<rparr>)\<rparr>,
             Inr (Some (habit\<lparr>currentStreak := 1, bestStreak := max (bestStreak habit) 1,
                             lastCompletedAt := Some now\<rparr>)))"
    proof (cases "setDate tza now (getDate tza now - 1)")
      case None
      then show ?thesis
        by (simp add: checkIn_def getHabit_def Let_def updateHabit_checkIn h l ns)
    next
      case (Some yesterday)
      then show ?thesis
        by (simp add: checkIn_def getHabit_def Let_def updateHabit_checkIn h l ns nc [OF Some])
    qed
    then show ?thesis
      by (simp add: getHabit_def)
  qed
qed

theorem checkIn_first_or_after_gap_witness:
  "\<exists>st' updated.
     checkIn nuuk2024 (storeOfHabit (sampleHabit 4 4 (Some 1711720800000))) ''h1''
       1711931400000 = (st', Inr (Some updated))
     \<and> getHabit st' ''h1'' = Some updated
     \<and> currentStreak updated = 1"
proof -
  have h: "getHabit (storeOfHabit (sampleHabit 4 4 (Some 1711720800000))) ''h1''
           = Some (sampleHabit 4 4 (Some 1711720800000))"
    by (simp add: getHabit_def storeOfHabit_def sampleHabit_def)
  have d: "localDay nuuk2024 1711720800000 + 2 \<le> localDay nuuk2024 1711931400000"
    by (simp add: localDay_def LocalTime_def nuuk2024_def Day_def msPerDay_def)
  have g: "lastCompletedAt (sampleHabit 4 4 (Some 1711720800000)) = None
         \<or> (\<exists>lastCompleted.
               lastCompletedAt (sampleHabit 4 4 (Some 1711720800000)) = Some lastCompleted
               \<and> localDay nuuk2024 lastCompleted + 2 \<le> localDay nuuk2024 1711931400000
               \<and> readsBackNoEarlier nuuk2024 (LocalTime nuuk2024 1711931400000 - msPerDay))"
    using d by (simp add: sampleHabit_def readsBackNoEarlier_nuuk2024)
  show ?thesis
    using checkIn_first_or_after_gap [OF h g] .
qed

text \<open>
  C8. A successful check-in writes the streak, the best streak and \<open>lastCompletedAt = now\<close>
  on the habit and nothing else: the id, name, description, frequency and creation time
  of the habit are as before, and so is every other record of the store.
\<close>

theorem checkIn_frame:
  assumes "getHabit st i = Some habit"
    and "checkIn tza st i now = (st', Inr updated)"
  shows "\<exists>h'. updated = Some h'
           \<and> h' = habit\<lparr>currentStreak := currentStreak h', bestStreak := bestStreak h',
                         lastCompletedAt := Some now\<rparr>
           \<and> lastCompletedAt h' = Some now
           \<and> habitId h' = habitId habit \<and> name h' = name habit
           \<and> description h' = description habit \<and> frequency h' = frequency habit
           \<and> habitCreatedAt h' = habitCreatedAt habit
           \<and> habits st' = (habits st)(i \<mapsto> h')
           \<and> focusSessions st' = focusSessions st"
proof -
  have h: "habits st i = Some habit"
    using assms(1) by (simp add: getHabit_def)
  show ?thesis
  proof (cases "lastCompletedAt habit")
    case None
    show ?thesis
      using assms(2) unfolding checkIn_first [OF h None] by auto
  next
    case (Some lastCompleted)
    show ?thesis
    proof (cases "localDay tza lastCompleted = localDay tza now")
      case True
      show ?thesis
        using assms(2) unfolding checkIn_same_day [OF h Some True] by simp
    next
      case False
      obtain n where "checkIn tza st i now
           = (st\<lparr>habits := (habits st)
                   (i \<mapsto> habit\<lparr>currentStreak := n, bestStreak := max (bestStreak habit) n,
                              lastCompletedAt := Some now\<rparr>)\<rparr>,
              Inr (Some (habit\<lparr>currentStreak := n, bestStreak := max (bestStreak habit) n,
                              lastCompletedAt := Some now\<rparr>)))"
        using checkIn_other_day [OF h Some False] by blast
      with assms(2) show ?thesis
        by auto
    qed
  qed
qed

theorem checkIn_frame_witness:
  "\<exists>h'. Some (sampleHabit 1 1 (Some 5000)) = Some h'
     \<and> h' = (sampleHabit 0 0 None)\<lparr>currentStreak := currentStreak h',
                 bestStreak := bestStreak h', lastCompletedAt := Some 5000\<rparr>
     \<and> lastCompletedAt h' = Some 5000
     \<and> habitId h' = habitId (sampleHabit 0 0 None) \<and> name h' = name (sampleHabit 0 0 None)
     \<and> description h' = description (sampleHabit 0 0 None)
     \<and> frequency h' = frequency (sampleHabit 0 0 None)
     \<and> habitCreatedAt h' = habitCreatedAt (sampleHabit 0 0 None)
     \<and> habits (storeOfHabit (sampleHabit 1 1 (Some 5000)))
         = (habits (storeOfHabit (sampleHabit 0 0 None)))(''h1'' \<mapsto> h')
     \<and> focusSessions (storeOfHabit (sampleHabit 1 1 (Some 5000)))
         = focusSessions (storeOfHabit (sampleHabit 0 0 None))"
proof -
  have h: "getHabit (storeOfHabit (sampleHabit 0 0 None)) ''h1'' = Some (sampleHabit 0 0 None)"
    by (simp add: getHabit_def storeOfHabit_def sampleHabit_def)
  have c: "checkIn (fixedOffset 0) (storeOfHabit (sampleHabit 0 0 None)) ''h1'' 5000
           = (storeOfHabit (sampleHabit 1 1 (Some 5000)), Inr (Some (sampleHabit 1 1 (Some 5000))))"
    by (simp add: checkIn_def getHabit_def updateHabit_def spreadHabit_def override_def
        noHabitUpdates_def storeOfHabit_def sampleHabit_def Let_def)
  show ?thesis
    using checkIn_frame [OF h c] .
qed

text \<open>
  C4. A new habit has both streaks 0 and is stored. A successful check-in stores the
  habit with the new streak, which is 1 or the old streak plus one, with the maximum of
  the old best streak and the new streak as best streak, and with \<open>now\<close> as last
  completion, and returns what it stored; a check-in on a stored habit whose last
  completion is not on the day of \<open>now\<close> is successful. Hence, after every sequence of
  requests served from the empty store, every stored habit has a best streak that is at
  least its streak.
\<close>

theorem bestStreak_invariant:
  "(currentStreak (snd (createHabit st uuid created insertHabit)) = 0
    \<and> bestStreak (snd (createHabit st uuid created insertHabit)) = 0
    \<and> habits (fst (createHabit st uuid created insertHabit)) uuid
        = Some (snd (createHabit st uuid created insertHabit)))
   \<and> (getHabit st i = Some habit \<and> checkIn tza st i now = (st', Inr r)
        \<longrightarrow> (\<exists>updated. r = Some updated
              \<and> getHabit st' i = Some updated
              \<and> habits st' = (habits st)(i \<mapsto> updated)
              \<and> bestStreak updated = max (bestStreak habit) (currentStreak updated)
              \<and> (currentStreak updated = 1 \<or> currentStreak updated = currentStreak habit + 1)
              \<and> lastCompletedAt updated = Some now))
   \<and> (getHabit st i = Some habit
        \<and> (\<forall>lastCompleted. lastCompletedAt habit = Some lastCompleted
               \<longrightarrow> localDay tza lastCompleted \<noteq> localDay tza now)
        \<longrightarrow> (\<exists>st'' updated. checkIn tza st i now = (st'', Inr (Some updated))))
   \<and> (getHabit (serve tza reqs) j = Some h \<longrightarrow> currentStreak h \<le> bestStreak h)"
proof (intro conjI impI)
  assume a: "getHabit st i = Some habit \<and> checkIn tza st i now = (st', Inr r)"
  then have h: "habits st i = Some habit" and c: "checkIn tza st i now = (st', Inr r)"
    by (simp_all add: getHabit_def)
  obtain n where "n = 1 \<or> n = currentStreak habit + 1"
    and "r = Some (habit\<lparr>currentStreak := n, bestStreak := max (bestStreak habit) n,
                          lastCompletedAt := Some now\<rparr>)"
    and "st' = st\<lparr>habits := (habits st)
                   (i \<mapsto> habit\<lparr>currentStreak := n, bestStreak := max (bestStreak habit) n,
                              lastCompletedAt := Some now\<rparr>)\<rparr>"
    using checkIn_success_form [OF h c] by blast
  then show "\<exists>updated. r = Some updated
              \<and> getHabit st' i = Some updated
              \<and> habits st' = (habits st)(i \<mapsto> updated)
              \<and> bestStreak updated = max (bestStreak habit) (currentStreak updated)
              \<and> (currentStreak updated = 1 \<or> currentStreak updated = currentStreak habit + 1)
              \<and> lastCompletedAt updated = Some now"
    by (simp add: getHabit_def)
next
  assume "getHabit st i = Some habit
        \<and> (\<forall>lastCompleted. lastCompletedAt habit = Some lastCompleted
               \<longrightarrow> localDay tza lastCompleted \<noteq> localDay tza now)"
  then show "\<exists>st'' updated. checkIn tza st i now = (st'', Inr (Some updated))"
    using checkIn_succeeds [of st i habit tza now] by (simp add: getHabit_def)
next
  assume "getHabit (serve tza reqs) j = Some h"
  moreover have "\<forall>j h. habits newMemStorage j = Some h \<longrightarrow> currentStreak h \<le> bestStreak h"
    by (simp add: newMemStorage_def)
  ultimately show "currentStreak h \<le> bestStreak h"
    using foldl_handle_keeps_order [of newMemStorage tza reqs]
    by (simp add: serve_def getHabit_def)
qed (simp_all add: createHabit_def Let_def)

theorem bestStreak_invariant_witness:
  "(\<exists>updated. Some (sampleHabit 4 4 (Some 1700000000000)) = Some updated
      \<and> getHabit (storeOfHabit (sampleHabit 4 4 (Some 1700000000000))) ''h1'' = Some updated
      \<and> habits (storeOfHabit (sampleHabit 4 4 (Some 1700000000000)))
          = (habits (storeOfHabit (sampleHabit 3 3 (Some 1699913600000))))(''h1'' \<mapsto> updated)
      \<and> bestStreak updated
          = max (bestStreak (sampleHabit 3 3 (Some 1699913600000))) (currentStreak updated)
      \<and> (currentStreak updated = 1
          \<or> currentStreak updated = currentStreak (sampleHabit 3 3 (Some 1699913600000)) + 1)
      \<and> lastCompletedAt updated = Some 1700000000000)
   \<and> (\<exists>st'' updated.
         checkIn (fixedOffset 0) (storeOfHabit (sampleHabit 3 3 (Some 1699913600000))) ''h1''
           1700000000000 = (st'', Inr (Some updated)))
   \<and> getHabit (serve (fixedOffset 0)
         [PostHabit ''h1'' 0
            \<lparr>insertName = ''Read'', insertDescription = None, insertFrequency = Some Daily\<rparr>,
          CheckIn ''h1'' 5000]) ''h1''
       = Some (sampleHabit 1 1 (Some 5000))
   \<and> currentStreak (sampleHabit 1 1 (Some 5000)) \<le> bestStreak (sampleHabit 1 1 (Some 5000))"
proof -
  have h: "getHabit (storeOfHabit (sampleHabit 3 3 (Some 1699913600000))) ''h1''
           = Some (sampleHabit 3 3 (Some 1699913600000))"
    by (simp add: getHabit_def storeOfHabit_def sampleHabit_def)
  have hs: "habits (storeOfHabit (sampleHabit 3 3 (Some 1699913600000))) ''h1''
           = Some (sampleHabit 3 3 (Some 1699913600000))"
    by (simp add: storeOfHabit_def sampleHabit_def)
  have l: "lastCompletedAt (sampleHabit 3 3 (Some 1699913600000)) = Some 1699913600000"
    by (simp add: sampleHabit_def)
  have d: "localDay (fixedOffset 0) 1699913600000 + 1 = localDay (fixedOffset 0) 1700000000000"
    by (simp add: localDay_fixedOffset)
  have t: "TimeClip (UTC (fixedOffset 0) (LocalTime (fixedOffset 0) 1700000000000 - msPerDay))
           \<noteq> None"
    by (simp add: TimeClip_def UTC_def LocalTime_def fixedOffset_def msPerDay_def)
  have c: "checkIn (fixedOffset 0) (storeOfHabit (sampleHabit 3 3 (Some 1699913600000))) ''h1''
             1700000000000
           = (storeOfHabit (sampleHabit 4 4 (Some 1700000000000)),
              Inr (Some (sampleHabit 4 4 (Some 1700000000000))))"
    unfolding checkIn_consecutive [OF hs l d keepsCalendarDay_fixedOffset t]
    by (simp add: storeOfHabit_def sampleHabit_def)
  have o: "\<forall>lastCompleted.
             lastCompletedAt (sampleHabit 3 3 (Some 1699913600000)) = Some lastCompleted
             \<longrightarrow> localDay (fixedOffset 0) lastCompleted \<noteq> localDay (fixedOffset 0) 1700000000000"
    by (simp add: sampleHabit_def localDay_fixedOffset)
  have p: "fst (postHabit newMemStorage ''h1'' 0
             \<lparr>insertName = ''Read'', insertDescription = None, insertFrequency = Some Daily\<rparr>)
           = storeOfHabit (sampleHabit 0 0 None)"
    by (simp add: postHabit_def createHabit_def stringOrNull_def newMemStorage_def
        storeOfHabit_def sampleHabit_def Let_def)
  have f: "checkIn (fixedOffset 0) (storeOfHabit (sampleHabit 0 0 None)) ''h1'' 5000
           = (storeOfHabit (sampleHabit 1 1 (Some 5000)), Inr (Some (sampleHabit 1 1 (Some 5000))))"
    by (simp add: checkIn_def getHabit_def updateHabit_def spreadHabit_def override_def
        noHabitUpdates_def storeOfHabit_def sampleHabit_def Let_def)
  have s: "getHabit (serve (fixedOffset 0)
         [PostHabit ''h1'' 0
            \<lparr>insertName = ''Read'', insertDescription = None, insertFrequency = Some Daily\<rparr>,
          CheckIn ''h1'' 5000]) ''h1''
       = Some (sampleHabit 1 1 (Some 5000))"
    by (simp add: serve_def p f) (simp add: getHabit_def storeOfHabit_def sampleHabit_def)
  show ?thesis
    using bestStreak_invariant [of "storeOfHabit (sampleHabit 3 3 (Some 1699913600000))"
        "''h1''" 0
        "\<lparr>insertName = ''Read'', insertDescription = None, insertFrequency = Some Daily\<rparr>"
        "''h1''" "sampleHabit 3 3 (Some 1699913600000)" "fixedOffset 0" 1700000000000
        "storeOfHabit (sampleHabit 4 4 (Some 1700000000000))"
        "Some (sampleHabit 4 4 (Some 1700000000000))"
        "[PostHabit ''h1'' 0
            \<lparr>insertName = ''Read'', insertDescription = None, insertFrequency = Some Daily\<rparr>,
          CheckIn ''h1'' 5000]" "''h1''" "sampleHabit 1 1 (Some 5000)"]
      h c o s
    by blast
qed

section \<open>Focus sessions\<close>

text \<open>
  C9. A start request at \<open>now\<close> whose payload the insert schema accepts creates a
  session, and the session a start request creates has \<open>startTime = now\<close>, no end time
  and no duration, and is stored under its id.
\<close>

theorem startSession_fields:
  "(insertFocusSessionSchema_parse now
        (if truthy bodySessionType then bodySessionType else JsString ''focus'')
        (if truthy bodyTaskId then bodyTaskId else JsNull) \<noteq> None
      \<longrightarrow> (\<exists>st' session.
            startSession st uuid now created bodySessionType bodyTaskId = (st', Inr session)))
   \<and> (startSession st uuid now created bodySessionType bodyTaskId = (st', Inr session)
      \<longrightarrow> startTime session = now \<and> endTime session = None
          \<and> durationMinutes session = None \<and> getFocusSession st' uuid = Some session)"
  by (auto simp add: startSession_def insertFocusSessionSchema_parse_def createFocusSession_def
      getFocusSession_def dateOrNull_def numberOrNull_def Let_def split: option.splits)

theorem startSession_fields_witness:
  "(\<exists>st' session.
      startSession newMemStorage ''s1'' 36000000 36000000 (JsString ''focus'') JsUndefined
        = (st', Inr session))
   \<and> startTime (sampleSession 36000000 None None) = 36000000
   \<and> endTime (sampleSession 36000000 None None) = None
   \<and> durationMinutes (sampleSession 36000000 None None) = None
   \<and> getFocusSession (storeOfSession (sampleSession 36000000 None None)) ''s1''
       = Some (sampleSession 36000000 None None)"
proof -
  have p: "insertFocusSessionSchema_parse 36000000
             (if truthy (JsString ''focus'') then JsString ''focus'' else JsString ''focus'')
             (if truthy JsUndefined then JsUndefined else JsNull) \<noteq> None"
    by (simp add: insertFocusSessionSchema_parse_def)
  have r: "startSession newMemStorage ''s1'' 36000000 36000000 (JsString ''focus'') JsUndefined
        = (storeOfSession (sampleSession 36000000 None None),
           Inr (sampleSession 36000000 None None))"
    by (simp add: startSession_def insertFocusSessionSchema_parse_def createFocusSession_def
        dateOrNull_def numberOrNull_def stringOrNull_def Let_def newMemStorage_def
        storeOfSession_def sampleSession_def)
  show ?thesis
    using startSession_fields [of 36000000 "JsString ''focus''" JsUndefined newMemStorage
        "''s1''" 36000000 "storeOfSession (sampleSession 36000000 None None)"
        "sampleSession 36000000 None None"] p r
    by blast
qed

text \<open>
  C5, as the code has it. Ending a stored session at \<open>now\<close> sets \<open>endTime = now\<close> and
  \<open>durationMinutes\<close> to the floor of \<open>(now - startTime) / 60000\<close>, the largest whole
  number of minutes not above the elapsed time. From a start that is not after \<open>now\<close>
  this drops the partial minute, as rounding toward zero does; from a start after \<open>now\<close>
  the stored duration is negative.
\<close>

theorem endSession_duration_floor:
  assumes "getFocusSession st i = Some session" and "i \<noteq> []"
  shows "\<exists>st' updated d. endSession st (JsString i) now = (st', Inr (Some updated))
           \<and> getFocusSession st' i = Some updated
           \<and> endTime updated = Some now
           \<and> durationMinutes updated = Some d
           \<and> d = (now - startTime session) div 60000
           \<and> 60000 * d \<le> now - startTime session \<and> now - startTime session < 60000 * (d + 1)
           \<and> (startTime session \<le> now
                \<longrightarrow> 0 \<le> d \<and> d = truncatedQuotient (now - startTime session) 60000)
           \<and> (now < startTime session \<longrightarrow> d < 0)"
proof -
  have s: "focusSessions st i = Some session"
    using assms(1) by (simp add: getFocusSession_def)
  have t: "startTime session \<le> now \<Longrightarrow>
           truncatedQuotient (now - startTime session) 60000 = (now - startTime session) div 60000"
    by (rule truncatedQuotient_nonneg) simp
  show ?thesis
    unfolding endSession_stored [OF s assms(2)]
    using floor_minutes [of "now - startTime session"] t
    by (auto simp add: getFocusSession_def)
qed

theorem endSession_duration_floor_witness:
  "\<exists>st' updated d.
     endSession (storeOfSession (sampleSession 36000000 None None)) (JsString ''s1'') 37530000
       = (st', Inr (Some updated))
     \<and> getFocusSession st' ''s1'' = Some updated
     \<and> endTime updated = Some 37530000
     \<and> durationMinutes updated = Some d
     \<and> d = 25"
proof -
  have g: "getFocusSession (storeOfSession (sampleSession 36000000 None None)) ''s1''
           = Some (sampleSession 36000000 None None)"
    by (simp add: getFocusSession_def storeOfSession_def sampleSession_def)
  have n: "''s1'' \<noteq> []"
    by simp
  have e: "(37530000 - startTime (sampleSession 36000000 None None)) div 60000 = 25"
    by (simp add: sampleSession_def)
  show ?thesis
    using endSession_duration_floor [OF g n, of 37530000] unfolding e by blast
qed

text \<open>
  C5, counterexample. The duration is not rounded toward zero: a session that starts 30 seconds after the
  time at which it is ended gets the duration -1, where rounding toward zero gives 0.
\<close>

theorem endSession_rounds_down_counterexample:
  "snd (endSession (storeOfSession (sampleSession 30000 None None)) (JsString ''s1'') 0)
     = Inr (Some (sampleSession 30000 (Some 0) (Some (- 1))))
   \<and> truncatedQuotient (0 - 30000) 60000 = 0"
  by (simp add: endSession_def getFocusSession_def updateFocusSession_def Let_def
      spreadFocusSession_end storeOfSession_def sampleSession_def truncatedQuotient_def)

text \<open>
  C6. Ending a session that is already closed does not fail: the end time becomes the
  new \<open>now\<close> and the duration is computed again from the start time, which stays as it
  was, like every other field.
\<close>

theorem endSession_closed_again:
  assumes "getFocusSession st i = Some session"
    and "endTime session = Some closedAt"
    and "i \<noteq> []"
  shows "\<exists>st' updated. endSession st (JsString i) now = (st', Inr (Some updated))
           \<and> getFocusSession st' i = Some updated
           \<and> updated = session\<lparr>endTime := Some now,
                 durationMinutes := Some ((now - startTime session) div 60000)\<rparr>
           \<and> startTime updated = startTime session"
proof -
  have s: "focusSessions st i = Some session"
    using assms(1) by (simp add: getFocusSession_def)
  show ?thesis
    unfolding endSession_stored [OF s assms(3)] by (simp add: getFocusSession_def)
qed

theorem endSession_closed_again_witness:
  "\<exists>st' updated.
     endSession (storeOfSession (sampleSession 36000000 (Some 37530000) (Some 25)))
       (JsString ''s1'') 37830000 = (st', Inr (Some updated))
     \<and> getFocusSession st' ''s1'' = Some updated
     \<and> updated = sampleSession 36000000 (Some 37830000) (Some 30)
     \<and> startTime updated = 36000000"
proof -
  have g: "getFocusSession (storeOfSession (sampleSession 36000000 (Some 37530000) (Some 25)))
             ''s1'' = Some (sampleSession 36000000 (Some 37530000) (Some 25))"
    by (simp add: getFocusSession_def storeOfSession_def sampleSession_def)
  have c: "endTime (sampleSession 36000000 (Some 37530000) (Some 25)) = Some 37530000"
    by (simp add: sampleSession_def)
  have n: "''s1'' \<noteq> []"
    by simp
  have u: "(sampleSession 36000000 (Some 37530000) (Some 25))
             \<lparr>endTime := Some 37830000,
                durationMinutes := Some ((37830000 - 36000000) div 60000)\<rparr>
           = sampleSession 36000000 (Some 37830000) (Some 30)"
    by (simp add: sampleSession_def)
  have t: "startTime (sampleSession 36000000 (Some 37530000) (Some 25)) = 36000000"
    by (simp add: sampleSession_def)
  show ?thesis
    using endSession_closed_again [OF g c n, of 37830000] unfolding t u .
qed

text \<open>
  C7. Ending a session under an id that the handler takes for an id (it is not empty)
  and that is not in the store fails with \<open>NotFound\<close> and leaves the store, hence every
  session record, as it was.
\<close>

theorem endSession_unknown_id:
  assumes "i \<noteq> []" and "getFocusSession st i = None"
  shows "endSession st (JsString i) now = (st, Inl NotFound)"
  using assms by (simp add: endSession_def)

theorem endSession_unknown_id_witness:
  "endSession (storeOfSession (sampleSession 36000000 None None)) (JsString ''s2'') 37530000
   = (storeOfSession (sampleSession 36000000 None None), Inl NotFound)"
proof -
  have n: "''s2'' \<noteq> []"
    by simp
  have g: "getFocusSession (storeOfSession (sampleSession 36000000 None None)) ''s2'' = None"
    by (simp add: getFocusSession_def storeOfSession_def sampleSession_def)
  show ?thesis
    using endSession_unknown_id [OF n g, of 37530000] .
qed

text \<open>
  C10. \<open>createFocusSession\<close> stores no duration when the payload has the duration 0, so
  the record it creates never has the duration 0; a later \<open>updateFocusSession\<close> with the
  duration 0 does store 0.
\<close>

theorem createFocusSession_zero_duration:
  "(insertDurationMinutes insertSession = Some 0
      \<longrightarrow> durationMinutes (snd (createFocusSession st uuid created insertSession)) = None)
   \<and> durationMinutes (snd (createFocusSession st uuid created insertSession)) \<noteq> Some 0
   \<and> getFocusSession (fst (createFocusSession st uuid created insertSession)) uuid
       = Some (snd (createFocusSession st uuid created insertSession))
   \<and> (getFocusSession st i = Some session
      \<longrightarrow> (\<exists>st' updated.
            updateFocusSession st i (noFocusSessionUpdates\<lparr>durationMinutes_opt := Some (Some 0)\<rparr>)
              = (st', Some updated)
            \<and> getFocusSession st' i = Some updated
            \<and> durationMinutes updated = Some 0))"
  by (auto simp add: createFocusSession_def numberOrNull_def getFocusSession_def Let_def
      updateFocusSession_def spreadFocusSession_def noFocusSessionUpdates_def override_def
      split: option.splits)

theorem createFocusSession_zero_duration_witness:
  "durationMinutes (snd (createFocusSession (storeOfSession (sampleSession 36000000 None None))
       ''s2'' 36000000
       \<lparr>insertStartTime = 36000000, insertEndTime = None, insertDurationMinutes = Some 0,
          insertSessionType = Some Focus, insertTaskId = None\<rparr>)) = None
   \<and> (\<exists>st' updated.
         updateFocusSession (storeOfSession (sampleSession 36000000 None None)) ''s1''
           (noFocusSessionUpdates\<lparr>durationMinutes_opt := Some (Some 0)\<rparr>) = (st', Some updated)
         \<and> getFocusSession st' ''s1'' = Some updated
         \<and> durationMinutes updated = Some 0)"
proof -
  have z: "insertDurationMinutes
             \<lparr>insertStartTime = 36000000, insertEndTime = None, insertDurationMinutes = Some 0,
                insertSessionType = Some Focus, insertTaskId = None\<rparr> = Some 0"
    by simp
  have g: "getFocusSession (storeOfSession (sampleSession 36000000 None None)) ''s1''
           = Some (sampleSession 36000000 None None)"
    by (simp add: getFocusSession_def storeOfSession_def sampleSession_def)
  show ?thesis
    using createFocusSession_zero_duration
      [of "\<lparr>insertStartTime = 36000000, insertEndTime = None, insertDurationMinutes = Some 0,
              insertSessionType = Some Focus, insertTaskId = None\<rparr>"
          "storeOfSession (sampleSession 36000000 None None)" "''s2''" 36000000
          "''s1''" "sampleSession 36000000 None None"]
      z g
    by blast
qed

end
